theory Spec2Isabelle
  imports Complex_Main
begin

section \<open>Values, exceptions and outcomes\<close>

text \<open>
  The library computes with Python numbers: \<^verbatim>\<open>int\<close>, \<^verbatim>\<open>float\<close>,
  \<^verbatim>\<open>decimal.Decimal\<close> and \<^verbatim>\<open>fractions.Fraction\<close>. A value carries its Python type as
  the constructor and its exact numeric value as the payload: a finite float and a finite
  Decimal are rational numbers. NaN and the infinities are not represented.
\<close>

datatype pyval = IntV int | FloatV rat | DecV rat | FracV rat

type_synonym decimal = rat

text \<open>
  What the interpreter and the two standard modules do to a number and the source does
  not spell out is a parameter of the model: \<open>dec_round\<close> is the rounding of a Decimal
  result to the precision of the process-wide context (\<^verbatim>\<open>getcontext().prec\<close>, set to 50 in
  \<^verbatim>\<open>maths_cleaned.py\<close> and to 1000 in \<^verbatim>\<open>arrays.py\<close>), \<open>float_round\<close> is the rounding of
  \<^verbatim>\<open>float(x)\<close> to a double. The rounding is any function: a context whose exponents are
  bounded below rounds a small number to zero. \<open>dec_overflow\<close> tells of the exact result
  of a Decimal operation that it is beyond the largest exponent of the context, where the
  operation raises \<^verbatim>\<open>decimal.Overflow\<close>; it is consulted in \<^verbatim>\<open>triangular\<close>, whose sum and
  product grow with the argument, and the other functions are modelled without that
  limit.
\<close>

record numerics =
  dec_round :: "rat \<Rightarrow> rat"
  float_round :: "rat \<Rightarrow> rat"
  dec_overflow :: "rat \<Rightarrow> bool"

text \<open>The context that never rounds and has no largest exponent; it agrees with every
  context on the values that need no rounding.\<close>

definition exact :: numerics where
  "exact = \<lparr>dec_round = (\<lambda>q. q), float_round = (\<lambda>q. q), dec_overflow = (\<lambda>q. False)\<rparr>"



text \<open>
  Exceptions. \<open>ValueError\<close> and \<open>StabilizeError\<close> carry the message of the
  \<^verbatim>\<open>raise\<close> statement; \<open>Overflow\<close> is \<^verbatim>\<open>decimal.Overflow\<close>, which is no
  \<^verbatim>\<open>ZeroDivisionError\<close>. A call either returns, raises, or runs forever.
\<close>

datatype exn =
    ZeroDivisionError
  | ValueError string
  | TypeError
  | AttributeError
  | StabilizeError string
  | Overflow

datatype 'a outcome = Returns 'a | Raises exn | Diverges

fun and_then :: "'a outcome \<Rightarrow> ('a \<Rightarrow> 'b outcome) \<Rightarrow> 'b outcome" where
  "and_then (Returns x) f = f x"
| "and_then (Raises e) f = Raises e"
| "and_then Diverges f = Diverges"

section \<open>Arithmetic of Python numbers\<close>

fun num_val :: "pyval \<Rightarrow> rat" where
  "num_val (IntV i) = of_int i"
| "num_val (FloatV f) = f"
| "num_val (DecV d) = d"
| "num_val (FracV q) = q"

text \<open>\<^verbatim>\<open>==\<close> between numbers of any two of the four types compares the exact values; the
  hashes of equal numbers are equal.\<close>

definition py_eq :: "pyval \<Rightarrow> pyval \<Rightarrow> bool" where
  "py_eq x y = (num_val x = num_val y)"

text \<open>\<^verbatim>\<open>int(x)\<close> truncates towards zero.\<close>

definition trunc :: "rat \<Rightarrow> int" where
  "trunc q = (if 0 \<le> q then \<lfloor>q\<rfloor> else \<lceil>q\<rceil>)"

fun py_int :: "pyval \<Rightarrow> int" where
  "py_int (IntV i) = i"
| "py_int x = trunc (num_val x)"

text \<open>\<^verbatim>\<open>Decimal.to_integral_value()\<close> rounds to an integer, ties to even.\<close>

definition to_integral_value :: "decimal \<Rightarrow> decimal" where
  "to_integral_value d =
     (let f = \<lfloor>d\<rfloor>; r = d - of_int f
      in of_int (if r < 1 / 2 then f else if 1 / 2 < r then f + 1
                 else if even f then f else f + 1))"

text \<open>Decimal operators round their result to the context's precision.\<close>

definition dec_add :: "numerics \<Rightarrow> decimal \<Rightarrow> decimal \<Rightarrow> decimal" where
  "dec_add N a b = dec_round N (a + b)"

definition dec_sub :: "numerics \<Rightarrow> decimal \<Rightarrow> decimal \<Rightarrow> decimal" where
  "dec_sub N a b = dec_round N (a - b)"

definition dec_mul :: "numerics \<Rightarrow> decimal \<Rightarrow> decimal \<Rightarrow> decimal" where
  "dec_mul N a b = dec_round N (a * b)"

text \<open>The operator \<^verbatim>\<open>/\<close> of Decimal, used by the source only where the divisor is not zero
  (a literal, or after the check of \<open>dec_div\<close>).\<close>

definition dec_quot :: "numerics \<Rightarrow> decimal \<Rightarrow> decimal \<Rightarrow> decimal" where
  "dec_quot N a b = dec_round N (a / b)"


definition dec_neg :: "numerics \<Rightarrow> decimal \<Rightarrow> decimal" where
  "dec_neg N a = dec_round N (- a)"

definition dec_abs :: "numerics \<Rightarrow> decimal \<Rightarrow> decimal" where
  "dec_abs N a = dec_round N \<bar>a\<bar>"

section \<open>\<^verbatim>\<open>condint.py\<close>\<close>

fun is_float :: "pyval \<Rightarrow> bool" where
  "is_float (FloatV f) = True"
| "is_float x = False"

text \<open>The test \<^verbatim>\<open>is_exact_int\<close> of \<^verbatim>\<open>condint\<close>, one disjunct per type.\<close>

fun is_exact_int :: "pyval \<Rightarrow> bool" where
  "is_exact_int (IntV i) = True"
| "is_exact_int (FloatV f) = (of_int \<lfloor>f\<rfloor> = f)"
| "is_exact_int (DecV d) = (d = to_integral_value d)"
| "is_exact_int (FracV q) = (snd (quotient_of q) = 1)"

definition condint ::
  "numerics \<Rightarrow> pyval \<Rightarrow> string option \<Rightarrow> (pyval \<Rightarrow> bool) option \<Rightarrow> pyval" where
  "condint N x to_type cond =
     (let cond' = (case cond of None \<Rightarrow> (\<lambda>v. True) | Some c \<Rightarrow> c) in
      if to_type = Some ''int'' \<and> cond' x \<and> is_exact_int x then
        (case x of FracV q \<Rightarrow> IntV (fst (quotient_of q)) | _ \<Rightarrow> IntV (py_int x))
      else if to_type = Some ''float'' \<and> cond' x then FloatV (float_round N (num_val x))
      else if to_type = None \<and> cond' x \<and> is_exact_int x \<and> is_float x then IntV (py_int x)
      else x)"

definition condint_list ::
  "numerics \<Rightarrow> pyval list \<Rightarrow> string option \<Rightarrow> (pyval \<Rightarrow> bool) option \<Rightarrow> pyval list" where
  "condint_list N lst to_type cond = map (\<lambda>x. condint N x to_type cond) lst"

section \<open>\<^verbatim>\<open>maths_cleaned.py\<close>: helpers\<close>

fun to_decimal :: "numerics \<Rightarrow> pyval \<Rightarrow> decimal" where
  "to_decimal N (DecV d) = d"
| "to_decimal N (FracV q) =
     dec_quot N (of_int (fst (quotient_of q))) (of_int (snd (quotient_of q)))"
| "to_decimal N (IntV i) = of_int i"
| "to_decimal N (FloatV f) = f"

definition dec_div :: "numerics \<Rightarrow> pyval \<Rightarrow> pyval \<Rightarrow> decimal outcome" where
  "dec_div N a b =
     (let a' = to_decimal N a; b' = to_decimal N b in
      if b' = 0 then Raises (ValueError ''Cannot divide by zero. Please change.'')
      else Returns (dec_quot N a' b'))"

section \<open>\<^verbatim>\<open>stabilze.py\<close>\<close>

text \<open>
  An array object (\<^verbatim>\<open>arrays.py\<close>) has the three attributes the constructor sets and, as every
  Python object, an identity: the arrays define neither \<^verbatim>\<open>__eq__\<close> nor \<^verbatim>\<open>__hash__\<close>, so two
  array arguments are the same dictionary key exactly when they are the same object.
  \<open>arr_id\<close> is that identity; the other fields are the object's current state.
\<close>

record array =
  arr_id :: nat
  arr_data :: "decimal list"
  arr_to_type :: "string option"
  arr_cond :: "(pyval \<Rightarrow> bool) option"

text \<open>A positional argument is a number or an array; a keyword argument is one of the two
  named options.\<close>

datatype arg = Num pyval | Arr array

datatype kwvalue = KwToType "string option" | KwCond "(pyval \<Rightarrow> bool) option"

type_synonym kwargs = "(string \<times> kwvalue) list"

fun arg_eq :: "arg \<Rightarrow> arg \<Rightarrow> bool" where
  "arg_eq (Num x) (Num y) = py_eq x y"
| "arg_eq (Arr a) (Arr b) = (arr_id a = arr_id b)"
| "arg_eq x y = False"

text \<open>The dictionary \<^verbatim>\<open>cache\<close>: the key is the tuple of the positional arguments, two tuples
  are the same key when they have the same length and equal components.\<close>

type_synonym 'r cache = "(arg list \<times> 'r) list"

fun cache_lookup :: "'r cache \<Rightarrow> arg list \<Rightarrow> 'r option" where
  "cache_lookup [] key = None"
| "cache_lookup ((k, r) # rest) key =
     (if list_all2 arg_eq k key then Some r else cache_lookup rest key)"

text \<open>
  \<^verbatim>\<open>wrapper(*args)\<close>, the function \<^verbatim>\<open>stabilize\<close> returns, with its dictionary passed in and
  returned. Its signature has no \<^verbatim>\<open>**kwargs\<close>: a call with a keyword argument raises
  \<^verbatim>\<open>TypeError\<close> before the body runs. \<^verbatim>\<open>func(*args)\<close> passes the positional arguments
  only.
\<close>

definition wrapper ::
  "(arg list \<Rightarrow> 'r outcome) \<Rightarrow> 'r cache \<Rightarrow> arg list \<Rightarrow> kwargs \<Rightarrow> 'r outcome \<times> 'r cache" where
  "wrapper func cache args kwargs =
     (case kwargs of
        kw # kws \<Rightarrow> (Raises TypeError, cache)
      | [] \<Rightarrow>
          (case cache_lookup cache args of
             Some r \<Rightarrow> (Returns r, cache)
           | None \<Rightarrow>
               (case func args of
                  Raises ZeroDivisionError \<Rightarrow>
                    (Raises (StabilizeError
                       ''Cannot divide by zero. Please change the denominator.''), cache)
                | Raises e \<Rightarrow> (Raises e, cache)
                | Diverges \<Rightarrow> (Diverges, cache)
                | Returns result \<Rightarrow> (Returns result, (args, result) # cache))))"

text \<open>The same wrapper around a function that itself calls stabilized functions: \<open>'s\<close> is
  the state of their dictionaries.\<close>

definition wrapper_st ::
  "(arg list \<Rightarrow> 's \<Rightarrow> 'r outcome \<times> 's) \<Rightarrow> 'r cache \<Rightarrow> arg list \<Rightarrow> kwargs \<Rightarrow> 's
     \<Rightarrow> ('r outcome \<times> 'r cache) \<times> 's" where
  "wrapper_st func cache args kwargs s =
     (case kwargs of
        kw # kws \<Rightarrow> ((Raises TypeError, cache), s)
      | [] \<Rightarrow>
          (case cache_lookup cache args of
             Some r \<Rightarrow> ((Returns r, cache), s)
           | None \<Rightarrow>
               (case func args s of
                  (Raises ZeroDivisionError, s') \<Rightarrow>
                    ((Raises (StabilizeError
                       ''Cannot divide by zero. Please change the denominator.''), cache), s')
                | (Raises e, s') \<Rightarrow> ((Raises e, cache), s')
                | (Diverges, s') \<Rightarrow> ((Diverges, cache), s')
                | (Returns result, s') \<Rightarrow> ((Returns result, (args, result) # cache), s'))))"

section \<open>\<^verbatim>\<open>maths_cleaned.py\<close>: the stabilized functions\<close>

text \<open>
  Each decorated function \<^verbatim>\<open>f\<close> is the pair of \<open>f_body\<close>, the function as written, with
  its keyword-only options as parameters, and \<open>f_stabilized\<close>, what the module binds to the
  name: the wrapper around the body, which calls it with the positional arguments and the
  options at their default \<^verbatim>\<open>None\<close>. A call with the wrong number of arguments, or with an
  array where a number is converted, raises \<^verbatim>\<open>TypeError\<close>.
\<close>

definition fact_body ::
  "numerics \<Rightarrow> arg list \<Rightarrow> string option \<Rightarrow> (pyval \<Rightarrow> bool) option \<Rightarrow> pyval outcome" where
  "fact_body N args to_type cond =
     (case args of
        [Num v] \<Rightarrow>
          (let n = py_int v in
           if n < 0 then Raises (ValueError ''Factorial not defined for negatives'')
           else Returns (condint N (IntV (fold (\<lambda>i result. result * i) [1..n] 1)) to_type cond))
      | _ \<Rightarrow> Raises TypeError)"

definition fact_stabilized ::
  "numerics \<Rightarrow> pyval cache \<Rightarrow> arg list \<Rightarrow> kwargs \<Rightarrow> pyval outcome \<times> pyval cache" where
  "fact_stabilized N = wrapper (\<lambda>args. fact_body N args None None)"

text \<open>\<^verbatim>\<open>str(n)\<close> of an integer, and \<^verbatim>\<open>int(d)\<close> of a one-character string.\<close>

definition digit_char :: "nat \<Rightarrow> char" where
  "digit_char d = char_of (48 + d)"

function digits :: "nat \<Rightarrow> string" where
  "digits n = (if n < 10 then [digit_char n] else digits (n div 10) @ [digit_char (n mod 10)])"
  by pat_completeness auto
termination
  by (relation "measure (\<lambda>n. n)") auto

declare digits.simps [simp del]

definition str_int :: "int \<Rightarrow> string" where
  "str_int n = (if n < 0 then CHR ''-'' # digits (nat (- n)) else digits (nat n))"

definition int_of_char :: "char \<Rightarrow> int outcome" where
  "int_of_char c =
     (let k = (of_char c :: nat) in
      if 48 \<le> k \<and> k \<le> 57 then Returns (int k - 48)
      else Raises (ValueError
        (''invalid literal for int() with base 10: '' @ [CHR 0x27, c, CHR 0x27])))"

text \<open>\<^verbatim>\<open>sum(int(d) for d in s)\<close>: the characters are converted and added from left to right,
  the first one that is no digit raises.\<close>

fun sum_digits :: "int \<Rightarrow> string \<Rightarrow> int outcome" where
  "sum_digits acc [] = Returns acc"
| "sum_digits acc (c # cs) =
     (case int_of_char c of
        Returns d \<Rightarrow> sum_digits (acc + d) cs
      | Raises e \<Rightarrow> Raises e
      | Diverges \<Rightarrow> Diverges)"

definition is_harshad_body :: "arg list \<Rightarrow> bool outcome" where
  "is_harshad_body args =
     (case args of
        [Num v] \<Rightarrow>
          (let n = py_int v in
           and_then (sum_digits 0 (str_int n))
             (\<lambda>s. if s = 0 then Raises ZeroDivisionError else Returns (n mod s = 0)))
      | _ \<Rightarrow> Raises TypeError)"

definition is_harshad_stabilized ::
  "bool cache \<Rightarrow> arg list \<Rightarrow> kwargs \<Rightarrow> bool outcome \<times> bool cache" where
  "is_harshad_stabilized = wrapper is_harshad_body"



text \<open>The loop of \<^verbatim>\<open>sqrt\<close>: \<^verbatim>\<open>for _ in range(30): guess = (guess + dec_div(x, guess)) / 2\<close>.\<close>

fun sqrt_loop :: "numerics \<Rightarrow> nat \<Rightarrow> decimal \<Rightarrow> decimal \<Rightarrow> decimal outcome" where
  "sqrt_loop N 0 x guess = Returns guess"
| "sqrt_loop N (Suc k) x guess =
     (case dec_div N (DecV x) (DecV guess) of
        Returns q \<Rightarrow> sqrt_loop N k x (dec_quot N (dec_add N guess q) 2)
      | Raises e \<Rightarrow> Raises e
      | Diverges \<Rightarrow> Diverges)"

definition sqrt_body ::
  "numerics \<Rightarrow> arg list \<Rightarrow> string option \<Rightarrow> (pyval \<Rightarrow> bool) option \<Rightarrow> pyval outcome" where
  "sqrt_body N args to_type cond =
     (case args of
        [Num v] \<Rightarrow>
          (let x = to_decimal N v in
           if x < 0 then Raises (ValueError ''Cannot take square root of negative'')
           else and_then (sqrt_loop N 30 x (dec_quot N x 2))
                  (\<lambda>guess. Returns (condint N (DecV guess) to_type cond)))
      | _ \<Rightarrow> Raises TypeError)"

definition sqrt_stabilized ::
  "numerics \<Rightarrow> pyval cache \<Rightarrow> arg list \<Rightarrow> kwargs \<Rightarrow> pyval outcome \<times> pyval cache" where
  "sqrt_stabilized N = wrapper (\<lambda>args. sqrt_body N args None None)"

definition percentage_body ::
  "numerics \<Rightarrow> arg list \<Rightarrow> string option \<Rightarrow> (pyval \<Rightarrow> bool) option \<Rightarrow> pyval outcome" where
  "percentage_body N args to_type cond =
     (case args of
        [Num part, Num tot] \<Rightarrow>
          and_then (dec_div N (DecV (dec_mul N (to_decimal N part) 100)) tot)
            (\<lambda>q. Returns (condint N (DecV q) to_type cond))
      | _ \<Rightarrow> Raises TypeError)"

definition percentage_stabilized ::
  "numerics \<Rightarrow> pyval cache \<Rightarrow> arg list \<Rightarrow> kwargs \<Rightarrow> pyval outcome \<times> pyval cache" where
  "percentage_stabilized N = wrapper (\<lambda>args. percentage_body N args None None)"

text \<open>
  The series of \<^verbatim>\<open>sin\<close> and \<^verbatim>\<open>cos\<close>: \<^verbatim>\<open>while abs(term) > Decimal("1e-40")\<close>. Nothing bounds
  the number of rounds, so the loop is a partial function: \<open>None\<close> when it never ends.
\<close>

partial_function (option) sin_loop ::
  "numerics \<Rightarrow> decimal \<Rightarrow> decimal \<Rightarrow> decimal \<Rightarrow> int \<Rightarrow> decimal option" where
  "sin_loop N x tm result n =
     (if 1 / 10 ^ 40 < dec_abs N tm then
        (let tm' = dec_mul N tm
                     (dec_quot N (dec_mul N (dec_neg N x) x) (of_int ((2 * n) * (2 * n + 1))));
             result' = dec_add N result tm'
         in sin_loop N x tm' result' (n + 1))
      else Some result)"

definition sin_body ::
  "numerics \<Rightarrow> arg list \<Rightarrow> string option \<Rightarrow> (pyval \<Rightarrow> bool) option \<Rightarrow> pyval outcome" where
  "sin_body N args to_type cond =
     (case args of
        [Num v] \<Rightarrow>
          (let x = to_decimal N v in
           case sin_loop N x x x 1 of
             Some result \<Rightarrow> Returns (condint N (DecV result) to_type cond)
           | None \<Rightarrow> Diverges)
      | _ \<Rightarrow> Raises TypeError)"

definition sin_stabilized ::
  "numerics \<Rightarrow> pyval cache \<Rightarrow> arg list \<Rightarrow> kwargs \<Rightarrow> pyval outcome \<times> pyval cache" where
  "sin_stabilized N = wrapper (\<lambda>args. sin_body N args None None)"

partial_function (option) cos_loop ::
  "numerics \<Rightarrow> decimal \<Rightarrow> decimal \<Rightarrow> decimal \<Rightarrow> int \<Rightarrow> decimal option" where
  "cos_loop N x tm result n =
     (if 1 / 10 ^ 40 < dec_abs N tm then
        (let tm' = dec_mul N tm
                     (dec_quot N (dec_mul N (dec_neg N x) x) (of_int ((2 * n - 1) * (2 * n))));
             result' = dec_add N result tm'
         in cos_loop N x tm' result' (n + 1))
      else Some result)"

definition cos_body ::
  "numerics \<Rightarrow> arg list \<Rightarrow> string option \<Rightarrow> (pyval \<Rightarrow> bool) option \<Rightarrow> pyval outcome" where
  "cos_body N args to_type cond =
     (case args of
        [Num v] \<Rightarrow>
          (let x = to_decimal N v in
           case cos_loop N x 1 1 1 of
             Some result \<Rightarrow> Returns (condint N (DecV result) to_type cond)
           | None \<Rightarrow> Diverges)
      | _ \<Rightarrow> Raises TypeError)"

definition cos_stabilized ::
  "numerics \<Rightarrow> pyval cache \<Rightarrow> arg list \<Rightarrow> kwargs \<Rightarrow> pyval outcome \<times> pyval cache" where
  "cos_stabilized N = wrapper (\<lambda>args. cos_body N args None None)"

text \<open>
  \<^verbatim>\<open>tan\<close> calls the names \<^verbatim>\<open>sin\<close> and \<^verbatim>\<open>cos\<close> of the module, which are the stabilized
  functions, and passes its two options on by keyword. The state it threads is the pair of
  their dictionaries; \<^verbatim>\<open>sin\<close> is called first, \<^verbatim>\<open>cos\<close> only when \<^verbatim>\<open>sin\<close> returned.
\<close>

definition tan_body ::
  "numerics \<Rightarrow> arg list \<Rightarrow> string option \<Rightarrow> (pyval \<Rightarrow> bool) option
     \<Rightarrow> pyval cache \<times> pyval cache \<Rightarrow> pyval outcome \<times> (pyval cache \<times> pyval cache)" where
  "tan_body N args to_type cond s =
     (case args of
        [x] \<Rightarrow>
          (case sin_stabilized N (fst s) [x]
                  [(''to_type'', KwToType to_type), (''cond'', KwCond cond)] of
             (Returns sv, cs) \<Rightarrow>
               (case cos_stabilized N (snd s) [x]
                       [(''to_type'', KwToType to_type), (''cond'', KwCond cond)] of
                  (Returns cv, cc) \<Rightarrow>
                    (and_then (dec_div N sv cv)
                       (\<lambda>q. Returns (condint N (DecV q) to_type cond)), (cs, cc))
                | (Raises e, cc) \<Rightarrow> (Raises e, (cs, cc))
                | (Diverges, cc) \<Rightarrow> (Diverges, (cs, cc)))
           | (Raises e, cs) \<Rightarrow> (Raises e, (cs, snd s))
           | (Diverges, cs) \<Rightarrow> (Diverges, (cs, snd s)))
      | _ \<Rightarrow> (Raises TypeError, s))"

definition tan_stabilized ::
  "numerics \<Rightarrow> pyval cache \<Rightarrow> arg list \<Rightarrow> kwargs \<Rightarrow> pyval cache \<times> pyval cache
     \<Rightarrow> (pyval outcome \<times> pyval cache) \<times> (pyval cache \<times> pyval cache)" where
  "tan_stabilized N = wrapper_st (\<lambda>args. tan_body N args None None)"

section \<open>\<^verbatim>\<open>arrays.py\<close>\<close>

text \<open>\<^verbatim>\<open>Array1(data, to_type=..., cond=...)\<close>; \<open>i\<close> is the identity of the new object.\<close>

definition Array1 ::
  "numerics \<Rightarrow> nat \<Rightarrow> pyval list \<Rightarrow> string option \<Rightarrow> (pyval \<Rightarrow> bool) option \<Rightarrow> array" where
  "Array1 N i xs to_type cond =
     \<lparr>arr_id = i, arr_data = map (to_decimal N) xs, arr_to_type = to_type, arr_cond = cond\<rparr>"

definition to_list :: "numerics \<Rightarrow> array \<Rightarrow> pyval list" where
  "to_list N self =
     map (\<lambda>x. condint N (DecV x) (arr_to_type self) (arr_cond self)) (arr_data self)"

text \<open>A list comprehension whose element expression can raise: the elements are computed
  in order and the first exception ends it.\<close>

fun map_outcome :: "('a \<Rightarrow> 'b outcome) \<Rightarrow> 'a list \<Rightarrow> 'b list outcome" where
  "map_outcome f [] = Returns []"
| "map_outcome f (x # xs) =
     (case f x of
        Returns y \<Rightarrow>
          (case map_outcome f xs of
             Returns ys \<Rightarrow> Returns (y # ys)
           | Raises e \<Rightarrow> Raises e
           | Diverges \<Rightarrow> Diverges)
      | Raises e \<Rightarrow> Raises e
      | Diverges \<Rightarrow> Diverges)"

definition elementwise ::
  "numerics \<Rightarrow> array \<Rightarrow> arg \<Rightarrow> (decimal \<Rightarrow> decimal \<Rightarrow> decimal outcome) \<Rightarrow> decimal list outcome" where
  "elementwise N self other op =
     (case other of
        Arr oth \<Rightarrow>
          if length (arr_data self) \<noteq> length (arr_data oth)
          then Raises (ValueError ''Array lengths must match'')
          else map_outcome (\<lambda>(a, b). op a b) (zip (arr_data self) (arr_data oth))
      | Num v \<Rightarrow>
          (let o' = to_decimal N v in map_outcome (\<lambda>a. op a o') (arr_data self)))"

text \<open>
  The four arithmetic methods. A method call \<^verbatim>\<open>a.add(b)\<close> is the call of the stabilized
  function with the positional arguments \<^verbatim>\<open>(a, b)\<close>; each method has one dictionary, shared
  by all arrays. The methods return the list \<^verbatim>\<open>condint_list\<close> builds, not an array.
\<close>

definition arith_body ::
  "numerics \<Rightarrow> (decimal \<Rightarrow> decimal \<Rightarrow> decimal outcome) \<Rightarrow> arg list \<Rightarrow> pyval list outcome" where
  "arith_body N op args =
     (case args of
        [Arr self, other] \<Rightarrow>
          and_then (elementwise N self other op)
            (\<lambda>l. Returns (condint_list N (map DecV l) (arr_to_type self) (arr_cond self)))
      | [Num v, other] \<Rightarrow> Raises AttributeError
      | _ \<Rightarrow> Raises TypeError)"

definition add_body :: "numerics \<Rightarrow> arg list \<Rightarrow> pyval list outcome" where
  "add_body N = arith_body N (\<lambda>a b. Returns (dec_add N a b))"

definition sub_body :: "numerics \<Rightarrow> arg list \<Rightarrow> pyval list outcome" where
  "sub_body N = arith_body N (\<lambda>a b. Returns (dec_sub N a b))"

definition mul_body :: "numerics \<Rightarrow> arg list \<Rightarrow> pyval list outcome" where
  "mul_body N = arith_body N (\<lambda>a b. Returns (dec_mul N a b))"

definition div_body :: "numerics \<Rightarrow> arg list \<Rightarrow> pyval list outcome" where
  "div_body N = arith_body N (\<lambda>a b. dec_div N (DecV a) (DecV b))"

definition add_stabilized ::
  "numerics \<Rightarrow> pyval list cache \<Rightarrow> arg list \<Rightarrow> kwargs \<Rightarrow> pyval list outcome \<times> pyval list cache" where
  "add_stabilized N = wrapper (add_body N)"

definition sub_stabilized ::
  "numerics \<Rightarrow> pyval list cache \<Rightarrow> arg list \<Rightarrow> kwargs \<Rightarrow> pyval list outcome \<times> pyval list cache" where
  "sub_stabilized N = wrapper (sub_body N)"

definition mul_stabilized ::
  "numerics \<Rightarrow> pyval list cache \<Rightarrow> arg list \<Rightarrow> kwargs \<Rightarrow> pyval list outcome \<times> pyval list cache" where
  "mul_stabilized N = wrapper (mul_body N)"

definition div_stabilized ::
  "numerics \<Rightarrow> pyval list cache \<Rightarrow> arg list \<Rightarrow> kwargs \<Rightarrow> pyval list outcome \<times> pyval list cache" where
  "div_stabilized N = wrapper (div_body N)"



section \<open>Notions used to state the properties\<close>

text \<open>One step of Newton's iteration for the square root of \<open>x\<close>, in the arithmetic of
  the context.\<close>

definition newton_step :: "numerics \<Rightarrow> decimal \<Rightarrow> decimal \<Rightarrow> decimal" where
  "newton_step N x guess = dec_quot N (dec_add N guess (dec_quot N x guess)) 2"

text \<open>The sum of the decimal digits of a natural number.\<close>

function digit_sum :: "nat \<Rightarrow> nat" where
  "digit_sum n = (if n < 10 then n else digit_sum (n div 10) + n mod 10)"
  by pat_completeness auto
termination
  by (relation "measure (\<lambda>n. n)") auto

declare digit_sum.simps [simp del]

section \<open>Properties\<close>

subsection \<open>The stabilizer\<close>

lemma wrapper_kwargs:
  "wrapper func cache args (kw # kws) = (Raises TypeError, cache)"
  by (simp add: wrapper_def)

lemma wrapper_hit:
  "cache_lookup cache args = Some r \<Longrightarrow> wrapper func cache args [] = (Returns r, cache)"
  by (simp add: wrapper_def)

lemma wrapper_miss_return:
  "cache_lookup cache args = None \<Longrightarrow> func args = Returns r \<Longrightarrow>
   wrapper func cache args [] = (Returns r, (args, r) # cache)"
  by (simp add: wrapper_def)

lemma wrapper_miss_raise:
  "cache_lookup cache args = None \<Longrightarrow> func args = Raises e \<Longrightarrow>
   wrapper func cache args [] =
     (Raises (if e = ZeroDivisionError
              then StabilizeError ''Cannot divide by zero. Please change the denominator.''
              else e), cache)"
  by (cases e) (simp_all add: wrapper_def)

lemma dec_div_zero:
  "to_decimal N b = 0 \<Longrightarrow>
   dec_div N a b = Raises (ValueError ''Cannot divide by zero. Please change.'')"
  by (simp add: dec_div_def)

lemma percentage_body_zero_total:
  "percentage_body exact [Num (IntV 1), Num (IntV 0)] None None =
     Raises (ValueError ''Cannot divide by zero. Please change.'')"
  by (simp add: percentage_body_def dec_div_zero)

text \<open>
  C1, as the code has it. \<open>dec_div\<close> with a zero divisor raises a \<open>ValueError\<close> of its own,
  outside a wrapped call and inside one: on a call that is not served from the dictionary,
  the wrapper turns exactly \<open>ZeroDivisionError\<close> into \<open>StabilizeError\<close> with the fixed
  message and lets every other exception, the \<open>ValueError\<close> of \<open>dec_div\<close> among them,
  pass unchanged, and stores nothing.
\<close>

theorem stabilizer_translates_only_ZeroDivisionError:
  "(to_decimal N b = 0 \<longrightarrow>
      dec_div N a b = Raises (ValueError ''Cannot divide by zero. Please change.''))
   \<and> (cache_lookup cache args = None \<and> func args = Raises e \<longrightarrow>
        wrapper func cache args [] =
          (Raises (if e = ZeroDivisionError
                   then StabilizeError ''Cannot divide by zero. Please change the denominator.''
                   else e), cache))"
  by (simp add: dec_div_zero wrapper_miss_raise)

text \<open>The theorem at \<^verbatim>\<open>percentage(1, 0)\<close>, first call.\<close>

theorem stabilizer_translates_only_ZeroDivisionError_witness:
  "to_decimal exact (IntV 0) = 0
   \<and> dec_div exact (IntV 1) (IntV 0) = Raises (ValueError ''Cannot divide by zero. Please change.'')
   \<and> cache_lookup ([] :: pyval cache) [Num (IntV 1), Num (IntV 0)] = None
   \<and> percentage_body exact [Num (IntV 1), Num (IntV 0)] None None =
       Raises (ValueError ''Cannot divide by zero. Please change.'')
   \<and> wrapper (\<lambda>args. percentage_body exact args None None) []
         [Num (IntV 1), Num (IntV 0)] [] =
       (Raises (ValueError ''Cannot divide by zero. Please change.''), [])"
proof -
  have h1: "to_decimal exact (IntV 0) = 0" by simp
  have h2: "cache_lookup ([] :: pyval cache) [Num (IntV 1), Num (IntV 0)] = None" by simp
  note h3 = percentage_body_zero_total
  show ?thesis
    using h1 h2 h3
      stabilizer_translates_only_ZeroDivisionError
        [where N = exact and a = "IntV 1" and b = "IntV 0" and cache = "[] :: pyval cache"
           and args = "[Num (IntV 1), Num (IntV 0)]"
           and func = "\<lambda>args. percentage_body exact args None None"
           and e = "ValueError ''Cannot divide by zero. Please change.''"]
    by simp
qed

text \<open>
  C1 as stated fails: \<^verbatim>\<open>percentage(1, 0)\<close> reaches \<open>dec_div\<close> with a zero divisor inside a
  wrapped call, and the caller gets the \<open>ValueError\<close>, not the \<open>StabilizeError\<close>.
\<close>

theorem dec_div_failure_not_translated:
  "fst (percentage_stabilized exact [] [Num (IntV 1), Num (IntV 0)] []) =
     Raises (ValueError ''Cannot divide by zero. Please change.'')
   \<and> fst (percentage_stabilized exact [] [Num (IntV 1), Num (IntV 0)] []) \<noteq>
     Raises (StabilizeError ''Cannot divide by zero. Please change the denominator.'')"
  by (simp add: percentage_stabilized_def wrapper_def percentage_body_zero_total)

lemma tan_body_TypeError: "tan_body N args to_type cond s = (Raises TypeError, s)"
  by (simp add: tan_body_def sin_stabilized_def wrapper_kwargs split: list.splits)

text \<open>
  C2 fails on the code. The body of \<^verbatim>\<open>tan\<close> calls the stabilized \<^verbatim>\<open>sin\<close> with keyword
  arguments, which the wrapper does not accept: the body raises \<open>TypeError\<close> for every
  argument list and every state, before any division. So a call of \<^verbatim>\<open>tan\<close> without keyword
  arguments returns only what its dictionary already holds, which is nothing, since no
  call ever stored a result; \<^verbatim>\<open>tan(0)\<close> on fresh dictionaries raises \<open>TypeError\<close>.
\<close>

theorem tan_raises_TypeError:
  "tan_body N args to_type cond s = (Raises TypeError, s)
   \<and> tan_stabilized N cache args [] s =
       (case cache_lookup cache args of
          Some r \<Rightarrow> ((Returns r, cache), s)
        | None \<Rightarrow> ((Raises TypeError, cache), s))
   \<and> tan_stabilized N [] [Num (IntV 0)] [] ([], []) = ((Raises TypeError, []), ([], []))"
  by (simp add: tan_stabilized_def wrapper_st_def tan_body_TypeError split: option.splits)

lemma fact_5:
  "fact_body N [Num (IntV 5)] None None = Returns (IntV 120)"
  by (simp add: fact_body_def condint_def upto.simps)

text \<open>
  C3 fails on the code. The key of the dictionary is the tuple of the positional
  arguments, but a call that passes a named option never reaches the dictionary: the
  wrapper raises \<open>TypeError\<close> on any keyword argument, whatever the function, the
  dictionary and the positional arguments. After \<^verbatim>\<open>fact(5)\<close> has stored 120, the call
  \<^verbatim>\<open>fact(5, to_type='float')\<close> raises \<open>TypeError\<close> instead of returning the stored result.
\<close>

theorem named_option_raises_TypeError:
  "wrapper func cache args (kw # kws) = (Raises TypeError, cache)
   \<and> fact_stabilized N [] [Num (IntV 5)] [] =
       (Returns (IntV 120), [([Num (IntV 5)], IntV 120)])
   \<and> fact_stabilized N [([Num (IntV 5)], IntV 120)] [Num (IntV 5)]
         [(''to_type'', KwToType (Some ''float''))] =
       (Raises TypeError, [([Num (IntV 5)], IntV 120)])"
  by (simp add: fact_stabilized_def wrapper_kwargs wrapper_miss_return fact_5)

subsection \<open>The type normalizer and the arrays\<close>

lemma condint_DecV_None: "condint N (DecV d) None cond = DecV d"
  by (simp add: condint_def)

lemma to_list_None:
  "to_list N (Array1 N i xs None cond) = map (\<lambda>v. DecV (to_decimal N v)) xs"
  by (simp add: to_list_def Array1_def condint_DecV_None comp_def)

lemma map_outcome_total:
  "map_outcome (\<lambda>x. Returns (f x)) xs = Returns (map f xs)"
  by (induction xs) simp_all

lemma arith_body_mismatch:
  "length (arr_data a) \<noteq> length (arr_data b) \<Longrightarrow>
   arith_body N op [Arr a, Arr b] = Raises (ValueError ''Array lengths must match'')"
  by (simp add: arith_body_def elementwise_def)

lemma add_body_sums:
  "length (arr_data a) = length (arr_data b) \<Longrightarrow>
   add_body N [Arr a, Arr b] =
     Returns (map (\<lambda>(x, y). condint N (DecV (dec_add N x y)) (arr_to_type a) (arr_cond a))
                (zip (arr_data a) (arr_data b)))"
  by (simp add: add_body_def arith_body_def elementwise_def condint_list_def
      case_prod_unfold map_outcome_total comp_def)


text \<open>
  C5, as the code has it. With no target type, whatever the predicate, \<open>to_list\<close> returns
  every element as the Decimal the constructor stored: the array built from the integers
  1, 2, 3 gives the Decimals 1, 2, 3 and the array built from the floats 1.0, 2.0 gives the
  Decimals 1, 2. They are equal to the numbers put in (\<^verbatim>\<open>==\<close>), and none is an integer.
\<close>

theorem to_list_without_target_type:
  "to_list N (Array1 N i xs None cond) = map (\<lambda>v. DecV (to_decimal N v)) xs
   \<and> to_list N (Array1 N i [IntV 1, IntV 2, IntV 3] None cond) = [DecV 1, DecV 2, DecV 3]
   \<and> to_list N (Array1 N i [FloatV 1, FloatV 2] None cond) = [DecV 1, DecV 2]
   \<and> list_all2 py_eq [DecV 1, DecV 2, DecV 3] [IntV 1, IntV 2, IntV 3]
   \<and> list_all2 py_eq [DecV 1, DecV 2] [FloatV 1, FloatV 2]"
  by (simp add: to_list_None py_eq_def)

text \<open>C5 as stated fails: the list returned for the integers 1, 2, 3 is not the list of
  the integers 1, 2, 3, and the list returned for the floats 1.0, 2.0 is not the list of
  the integers 1, 2.\<close>

theorem to_list_returns_no_integers:
  "to_list exact (Array1 exact 0 [IntV 1, IntV 2, IntV 3] None None) \<noteq> [IntV 1, IntV 2, IntV 3]
   \<and> to_list exact (Array1 exact 0 [FloatV 1, FloatV 2] None None) \<noteq> [IntV 1, IntV 2]"
  by (simp add: to_list_None)

lemma trunc_of_int: "trunc (of_int k) = k"
  by (simp add: trunc_def)

lemma trunc_integral: "of_int \<lfloor>f\<rfloor> = f \<Longrightarrow> trunc f = \<lfloor>f\<rfloor>"
  by (metis trunc_of_int)

text \<open>
  C6. With no target type and the default predicate, \<open>condint\<close> turns the float 2.0 into
  the integer 2 and returns the Decimal 2.0 unchanged. In general it turns the float of
  every integer \<open>k\<close> into the integer \<open>k\<close>, and returns unchanged every float with a
  fractional part, every Decimal, whether integral or not, every Fraction and every
  integer: only floats are converted.
\<close>

theorem condint_auto_coerces_only_floats:
  "condint N (FloatV 2) None None = IntV 2
   \<and> condint N (DecV 2) None None = DecV 2
   \<and> (\<forall>d. condint N (DecV d) None None = DecV d)
   \<and> (\<forall>x. condint N x None None =
          (if is_float x \<and> is_exact_int x then IntV (py_int x) else x))
   \<and> (\<forall>k. condint N (FloatV (of_int k)) None None = IntV k)
   \<and> (\<forall>f. condint N (FloatV f) None None =
          (if of_int \<lfloor>f\<rfloor> = f then IntV \<lfloor>f\<rfloor> else FloatV f))
   \<and> (\<forall>q. condint N (FracV q) None None = FracV q)
   \<and> (\<forall>i. condint N (IntV i) None None = IntV i)"
  by (simp add: condint_def trunc_of_int trunc_integral)




lemma stale_cache_state:
  "snd (add_stabilized exact []
          [Arr \<lparr>arr_id = 0, arr_data = [1, 2], arr_to_type = None, arr_cond = None\<rparr>,
           Arr \<lparr>arr_id = 1, arr_data = [3, 4], arr_to_type = None, arr_cond = None\<rparr>] []) =
     [([Arr \<lparr>arr_id = 0, arr_data = [1, 2], arr_to_type = None, arr_cond = None\<rparr>,
        Arr \<lparr>arr_id = 1, arr_data = [3, 4], arr_to_type = None, arr_cond = None\<rparr>],
       [DecV 4, DecV 6])]"
  by (simp add: add_stabilized_def wrapper_def add_body_sums condint_DecV_None dec_add_def
      exact_def)

text \<open>
  C8, as the code has it. When the two arrays differ in length, the body of each of the
  four methods raises the \<open>ValueError\<close> of the length check, whatever the elements and
  whatever the operation; and the method call, when it is not served from the dictionary
  of the method, raises it too and leaves the dictionary as it was. When the dictionary
  holds a result for the pair, the call returns that result and no length is compared.
\<close>

theorem elementwise_ops_length_mismatch:
  "(length (arr_data a) \<noteq> length (arr_data b) \<longrightarrow>
     arith_body N op [Arr a, Arr b] = Raises (ValueError ''Array lengths must match'')
     \<and> (cache_lookup c_add [Arr a, Arr b] = None \<longrightarrow>
          add_stabilized N c_add [Arr a, Arr b] [] =
            (Raises (ValueError ''Array lengths must match''), c_add))
     \<and> (cache_lookup c_sub [Arr a, Arr b] = None \<longrightarrow>
          sub_stabilized N c_sub [Arr a, Arr b] [] =
            (Raises (ValueError ''Array lengths must match''), c_sub))
     \<and> (cache_lookup c_mul [Arr a, Arr b] = None \<longrightarrow>
          mul_stabilized N c_mul [Arr a, Arr b] [] =
            (Raises (ValueError ''Array lengths must match''), c_mul))
     \<and> (cache_lookup c_div [Arr a, Arr b] = None \<longrightarrow>
          div_stabilized N c_div [Arr a, Arr b] [] =
            (Raises (ValueError ''Array lengths must match''), c_div)))
   \<and> (cache_lookup c_add [Arr a, Arr b] = Some r \<longrightarrow>
        add_stabilized N c_add [Arr a, Arr b] [] = (Returns r, c_add))
   \<and> (cache_lookup c_sub [Arr a, Arr b] = Some r \<longrightarrow>
        sub_stabilized N c_sub [Arr a, Arr b] [] = (Returns r, c_sub))
   \<and> (cache_lookup c_mul [Arr a, Arr b] = Some r \<longrightarrow>
        mul_stabilized N c_mul [Arr a, Arr b] [] = (Returns r, c_mul))
   \<and> (cache_lookup c_div [Arr a, Arr b] = Some r \<longrightarrow>
        div_stabilized N c_div [Arr a, Arr b] [] = (Returns r, c_div))"
  by (simp add: add_stabilized_def sub_stabilized_def mul_stabilized_def div_stabilized_def
      add_body_def sub_body_def mul_body_def div_body_def
      wrapper_miss_raise wrapper_hit arith_body_mismatch)

text \<open>The theorem at \<^verbatim>\<open>Array1([1,2,3])\<close> and \<^verbatim>\<open>Array1([1,2])\<close>, first calls.\<close>

theorem elementwise_ops_length_mismatch_witness:
  "length (arr_data (Array1 exact 0 [IntV 1, IntV 2, IntV 3] None None)) \<noteq>
     length (arr_data (Array1 exact 1 [IntV 1, IntV 2] None None))
   \<and> cache_lookup ([] :: pyval list cache)
        [Arr (Array1 exact 0 [IntV 1, IntV 2, IntV 3] None None),
         Arr (Array1 exact 1 [IntV 1, IntV 2] None None)] = None
   \<and> add_stabilized exact []
        [Arr (Array1 exact 0 [IntV 1, IntV 2, IntV 3] None None),
         Arr (Array1 exact 1 [IntV 1, IntV 2] None None)] [] =
       (Raises (ValueError ''Array lengths must match''), [])
   \<and> div_stabilized exact []
        [Arr (Array1 exact 0 [IntV 1, IntV 2, IntV 3] None None),
         Arr (Array1 exact 1 [IntV 1, IntV 2] None None)] [] =
       (Raises (ValueError ''Array lengths must match''), [])"
proof -
  have l: "length (arr_data (Array1 exact 0 [IntV 1, IntV 2, IntV 3] None None)) \<noteq>
     length (arr_data (Array1 exact 1 [IntV 1, IntV 2] None None))"
    by (simp add: Array1_def)
  show ?thesis
    using l
      elementwise_ops_length_mismatch
        [where N = exact and a = "Array1 exact 0 [IntV 1, IntV 2, IntV 3] None None"
           and b = "Array1 exact 1 [IntV 1, IntV 2] None None"
           and c_add = "[]" and c_sub = "[]" and c_mul = "[]" and c_div = "[]"]
    by simp
qed

text \<open>
  C8 as stated fails on a pair the dictionary holds. The dictionary is keyed by the
  identity of the arrays and is never invalidated, and the length of the data of an
  array can change after a call (\<^verbatim>\<open>__setitem__\<close> of \<^verbatim>\<open>Array2\<close> and \<^verbatim>\<open>Array3\<close> with a slice
  assigns a list of another length). Here \<open>add\<close> has been called on the arrays of
  identities 0 and 1 when both had two elements; the array 0 now has one element, and
  \<open>add\<close> on the two returns the list stored then instead of raising the \<open>ValueError\<close>.
\<close>

theorem stale_hit_after_length_change:
  "length (arr_data \<lparr>arr_id = 0, arr_data = [1], arr_to_type = None, arr_cond = None\<rparr>) \<noteq>
     length (arr_data \<lparr>arr_id = 1, arr_data = [3, 4], arr_to_type = None, arr_cond = None\<rparr>)
   \<and> fst (add_stabilized exact
        (snd (add_stabilized exact []
           [Arr \<lparr>arr_id = 0, arr_data = [1, 2], arr_to_type = None, arr_cond = None\<rparr>,
            Arr \<lparr>arr_id = 1, arr_data = [3, 4], arr_to_type = None, arr_cond = None\<rparr>] []))
        [Arr \<lparr>arr_id = 0, arr_data = [1], arr_to_type = None, arr_cond = None\<rparr>,
         Arr \<lparr>arr_id = 1, arr_data = [3, 4], arr_to_type = None, arr_cond = None\<rparr>] []) =
       Returns [DecV 4, DecV 6]"
  by (simp only: stale_cache_state) (simp add: add_stabilized_def wrapper_def)

subsection \<open>The triangular numbers\<close>

lemma quotient_of_ratio:
  "rat_of_int (fst (quotient_of q)) / rat_of_int (snd (quotient_of q)) = q"
  using quotient_of_div [of q "fst (quotient_of q)" "snd (quotient_of q)"] by simp








subsection \<open>Harshad numbers\<close>

lemma int_of_char_digit: "d < 10 \<Longrightarrow> int_of_char (digit_char d) = Returns (int d)"
  by (simp add: int_of_char_def digit_char_def)

lemma int_of_char_minus:
  "int_of_char CHR ''-'' =
     Raises (ValueError
       (''invalid literal for int() with base 10: '' @ [CHR 0x27, CHR ''-'', CHR 0x27]))"
  by (simp add: int_of_char_def)

lemma sum_digits_append:
  "sum_digits acc (xs @ ys) = and_then (sum_digits acc xs) (\<lambda>a. sum_digits a ys)"
  by (induction xs arbitrary: acc) (simp_all split: outcome.splits)

lemma sum_digits_digits: "sum_digits acc (digits n) = Returns (acc + int (digit_sum n))"
proof (induction n arbitrary: acc rule: digits.induct)
  case (1 n)
  show ?case
  proof (cases "n < 10")
    case True
    then show ?thesis
      by (simp add: digits.simps [of n] digit_sum.simps [of n] int_of_char_digit)
  next
    case False
    then have "sum_digits acc (digits (n div 10)) = Returns (acc + int (digit_sum (n div 10)))"
      by (rule "1.IH")
    then show ?thesis
      using False
      by (simp add: digits.simps [of n] digit_sum.simps [of n] sum_digits_append
          int_of_char_digit)
  qed
qed

lemma digit_sum_pos: "0 < n \<Longrightarrow> 0 < digit_sum n"
proof (induction n rule: digit_sum.induct)
  case (1 n)
  show ?case
  proof (cases "n < 10")
    case True
    then show ?thesis
      using "1.prems" by (simp add: digit_sum.simps [of n])
  next
    case False
    then have "0 < n div 10"
      by simp
    with False have "0 < digit_sum (n div 10)"
      by (simp add: "1.IH")
    then show ?thesis
      using False by (simp add: digit_sum.simps [of n])
  qed
qed

lemma is_harshad_body_pos:
  assumes "0 < py_int v"
  shows "is_harshad_body [Num v] =
           Returns (py_int v mod int (digit_sum (nat (py_int v))) = 0)"
proof -
  have "0 < digit_sum (nat (py_int v))"
    using assms by (simp add: digit_sum_pos)
  then show ?thesis
    using assms by (simp add: is_harshad_body_def str_int_def sum_digits_digits Let_def)
qed

lemma is_harshad_body_zero:
  assumes "py_int v = 0"
  shows "is_harshad_body [Num v] = Raises ZeroDivisionError"
  using assms
  by (simp add: is_harshad_body_def str_int_def sum_digits_digits digit_sum.simps [of 0])

lemma is_harshad_body_neg:
  assumes "py_int v < 0"
  shows "is_harshad_body [Num v] =
     Raises (ValueError
       (''invalid literal for int() with base 10: '' @ [CHR 0x27, CHR ''-'', CHR 0x27]))"
  using assms
  by (simp add: is_harshad_body_def str_int_def int_of_char_minus)

text \<open>
  What holds of C10: on a call that is not served from the dictionary, \<^verbatim>\<open>is_harshad\<close> of
  a number whose integer part is zero raises \<open>StabilizeError\<close>, and of a number whose
  integer part is positive it returns the boolean \<open>n mod s = 0\<close>, \<open>s\<close> the sum of the
  digits of \<open>n\<close>.
\<close>

lemma is_harshad_zero_and_positive:
  assumes "cache_lookup cache [Num v] = None"
  shows "(py_int v = 0 \<longrightarrow>
            is_harshad_stabilized cache [Num v] [] =
              (Raises (StabilizeError ''Cannot divide by zero. Please change the denominator.''),
               cache))
         \<and> (0 < py_int v \<longrightarrow>
            fst (is_harshad_stabilized cache [Num v] []) =
              Returns (py_int v mod int (digit_sum (nat (py_int v))) = 0))"
  using assms
  by (simp add: is_harshad_stabilized_def wrapper_miss_raise wrapper_miss_return
      is_harshad_body_zero is_harshad_body_pos)

text \<open>
  C10 fails on the code for the negative integers. \<^verbatim>\<open>str(n)\<close> of a negative \<open>n\<close> starts
  with the sign, \<^verbatim>\<open>int('-')\<close> raises \<open>ValueError\<close>, and the wrapper passes it on: no call
  on a negative integer that is not served from the dictionary returns a boolean, and
  \<^verbatim>\<open>is_harshad(-12)\<close> on a fresh dictionary raises the \<open>ValueError\<close>.
\<close>

theorem is_harshad_negative_raises:
  "(\<forall>n cache. n < 0 \<and> cache_lookup cache [Num (IntV n)] = None \<longrightarrow>
      is_harshad_stabilized cache [Num (IntV n)] [] =
        (Raises (ValueError
           (''invalid literal for int() with base 10: '' @ [CHR 0x27, CHR ''-'', CHR 0x27])),
         cache))
   \<and> is_harshad_stabilized [] [Num (IntV (- 12))] [] =
       (Raises (ValueError
          (''invalid literal for int() with base 10: '' @ [CHR 0x27, CHR ''-'', CHR 0x27])),
        [])"
  by (simp add: is_harshad_stabilized_def wrapper_miss_raise is_harshad_body_neg)

text \<open>The theorem at \<^verbatim>\<open>is_harshad(-12)\<close>, first call.\<close>

theorem is_harshad_negative_raises_witness:
  "(- 12 :: int) < 0
   \<and> cache_lookup ([] :: bool cache) [Num (IntV (- 12))] = None
   \<and> fst (is_harshad_stabilized [] [Num (IntV (- 12))] []) =
       Raises (ValueError
         (''invalid literal for int() with base 10: '' @ [CHR 0x27, CHR ''-'', CHR 0x27]))"
  using is_harshad_negative_raises by simp

end
